theory Spec2Isabelle
  imports Main "HOL-Library.Sublist"
begin

section \<open>The build script of the lx monorepo\<close>

text \<open>
  The development embeds the build helper (\<^verbatim>\<open>build-packages.ts\<close>), its built-in
  configuration (\<^verbatim>\<open>build.config.ts\<close>) and the utility \<^verbatim>\<open>deepClone\<close>
  (\<^verbatim>\<open>packages/utils/src/clone.ts\<close>). JavaScript strings are modelled as
  \<^typ>\<open>string\<close>, thrown values as results of a sum type, console output and calls to
  the file system and to the bundler as an event trace.
\<close>

subsection \<open>Strings and arrays\<close>

text \<open>
  \<^verbatim>\<open>String.prototype.startsWith\<close> and \<^verbatim>\<open>endsWith\<close>; \<^verbatim>\<open>s.split(c)\<close> and
  \<^verbatim>\<open>s.replace(c, r)\<close> for a one-character string \<open>c\<close> (\<^verbatim>\<open>replace\<close> with a string
  pattern rewrites the first occurrence only); \<^verbatim>\<open>Array.prototype.join\<close>.
\<close>

definition startsWith :: "string \<Rightarrow> string \<Rightarrow> bool" where
  "startsWith s p = (take (length p) s = p)"

definition endsWith :: "string \<Rightarrow> string \<Rightarrow> bool" where
  "endsWith s p = (length p \<le> length s \<and> drop (length s - length p) s = p)"

fun split :: "char \<Rightarrow> string \<Rightarrow> string list" where
  "split c [] = [[]]"
| "split c (x # xs) =
     (if x = c then [] # split c xs
      else (case split c xs of [] \<Rightarrow> [[x]] | seg # segs \<Rightarrow> (x # seg) # segs))"

fun replace :: "char \<Rightarrow> string \<Rightarrow> string \<Rightarrow> string" where
  "replace c r [] = []"
| "replace c r (x # xs) = (if x = c then r @ xs else x # replace c r xs)"

fun array_join :: "string \<Rightarrow> string list \<Rightarrow> string" where
  "array_join sep [] = []"
| "array_join sep [x] = x"
| "array_join sep (x # y # ys) = x @ sep @ array_join sep (y # ys)"

text \<open>
  A value of type \<^verbatim>\<open>string | undefined\<close> is a \<^typ>\<open>string option\<close>; it is falsy when
  it is \<^verbatim>\<open>undefined\<close> or the empty string.
\<close>

fun truthy :: "string option \<Rightarrow> bool" where
  "truthy None = False"
| "truthy (Some s) = (s \<noteq> [])"

subsection \<open>Configuration and bundler options\<close>

text \<open>
  Keys of the bundler's option objects that the script never reads are kept as an
  association list of key and rendered value (the \<open>_other\<close> fields), so that an object
  spread carries them along.
\<close>

type_synonym VueOptions = "(string \<times> string) list"

record OutputOptions =
  output_globals :: "(string \<times> string) list option"
  output_other :: "(string \<times> string) list"

record RollupOptions =
  rollup_external :: "string list option"
  rollup_output :: "OutputOptions option"
  rollup_other :: "(string \<times> string) list"

record LibOptions =
  lib_entry :: string
  lib_name :: string
  lib_formats :: "string list"
  lib_fileName :: "string \<Rightarrow> string"

record BuildOptions =
  lib :: "LibOptions option"
  rollupOptions :: "RollupOptions option"
  outDir :: "string option"
  build_other :: "(string \<times> string) list"

record UserConfig =
  uc_build :: "BuildOptions option"
  uc_other :: "(string \<times> string) list"

text \<open>\<^verbatim>\<open>interface BuildConfig\<close> of \<^verbatim>\<open>build.config.ts\<close>.\<close>

record BuildConfig =
  formats :: "string list"
  outRoot :: string
  entryFiles :: "string list"
  globals :: "(string \<times> string) list"
  external :: "(string \<Rightarrow> bool) option"
  vite :: "UserConfig option"
  vue :: "VueOptions option"

text \<open>
  \<^verbatim>\<open>external: (depName) => { if (depName === 'vue') return true; return !depName.startsWith('@lx/') }\<close>
\<close>

definition default_external :: "string \<Rightarrow> bool" where
  "default_external depName =
     (if depName = ''vue'' then True else \<not> startsWith depName ''@lx/'')"

text \<open>\<^verbatim>\<open>const config: BuildConfig = { ... }\<close>, imported by the script as \<^verbatim>\<open>defaultConfig\<close>.\<close>

definition defaultConfig :: BuildConfig where
  "defaultConfig =
     \<lparr> formats = [''es'', ''cjs'', ''umd''],
       outRoot = ''dist'',
       entryFiles = [''index.ts'', ''src/index.ts'', ''src/index.tsx''],
       globals = [(''vue'', ''Vue''), (''@vueuse/core'', ''VueUse'')],
       external = Some default_external,
       vite = Some \<lparr> uc_build = Some
                 \<lparr> lib = None, rollupOptions = None, outDir = None,
                   build_other = [(''minify'', ''esbuild''), (''sourcemap'', ''true''),
                                  (''reportCompressedSize'', ''false'')] \<rparr>,
               uc_other = [] \<rparr>,
       vue = Some [(''isProduction'', ''true'')] \<rparr>"

text \<open>
  The default export of a user's configuration module: for each key of
  \<^verbatim>\<open>BuildConfig\<close>, \<open>None\<close> when the key is absent and \<open>Some v\<close> when it is set.
\<close>

record UserOverride =
  u_formats :: "string list option"
  u_outRoot :: "string option"
  u_entryFiles :: "string list option"
  u_globals :: "(string \<times> string) list option"
  u_external :: "(string \<Rightarrow> bool) option option"
  u_vite :: "UserConfig option option"
  u_vue :: "VueOptions option option"

text \<open>\<^verbatim>\<open>{ ...defaultConfig, ...userConfig.default }\<close>: the override wins key by key.\<close>

definition spreadConfig :: "BuildConfig \<Rightarrow> UserOverride option \<Rightarrow> BuildConfig" where
  "spreadConfig d uo =
     (case uo of
        None \<Rightarrow> d
      | Some u \<Rightarrow>
          \<lparr> formats = (case u_formats u of None \<Rightarrow> formats d | Some v \<Rightarrow> v),
            outRoot = (case u_outRoot u of None \<Rightarrow> outRoot d | Some v \<Rightarrow> v),
            entryFiles = (case u_entryFiles u of None \<Rightarrow> entryFiles d | Some v \<Rightarrow> v),
            globals = (case u_globals u of None \<Rightarrow> globals d | Some v \<Rightarrow> v),
            external = (case u_external u of None \<Rightarrow> external d | Some v \<Rightarrow> v),
            vite = (case u_vite u of None \<Rightarrow> vite d | Some v \<Rightarrow> v),
            vue = (case u_vue u of None \<Rightarrow> vue d | Some v \<Rightarrow> v) \<rparr>)"

subsection \<open>Manifest, command line, host\<close>

text \<open>
  The parsed \<^verbatim>\<open>package.json\<close> (\<^verbatim>\<open>pkgJson: any\<close>): the keys the script reads. The
  dependency objects are given as their entries in the order of \<^verbatim>\<open>Object.keys\<close>.
\<close>

record PkgJson =
  pj_name :: "string option"
  pj_module :: "string option"
  pj_main :: "string option"
  pj_peerDependencies :: "(string \<times> string) list option"
  pj_dependencies :: "(string \<times> string) list option"

text \<open>\<^verbatim>\<open>type Opts\<close>, the result of \<^verbatim>\<open>parseArgs\<close>.\<close>

record Opts =
  pkg :: "string option"
  component :: "string option"
  opt_formats :: "string list option"
  opt_outRoot :: "string option"
  opt_config :: "string option"

text \<open>A thrown JavaScript \<^verbatim>\<open>Error\<close> with its message.\<close>

datatype error = Error (message: string)

text \<open>The argument object of \<^verbatim>\<open>vite.build\<close> (\<^verbatim>\<open>optsForVite\<close>).\<close>

record ViteOpts =
  configFile :: "string option"
  root :: string
  plugins :: "VueOptions option list"
  vo_build :: BuildOptions

text \<open>
  What the script observes of its host, as parameters: Node's \<^verbatim>\<open>path\<close> and \<^verbatim>\<open>fs\<close>
  modules, \<^verbatim>\<open>process.cwd\<close>, the dynamic import of a configuration module and the
  bundler's \<^verbatim>\<open>build\<close>. \<open>'w\<close> is the state of the world (the disk, the process); the
  bundler and an imported module may change it, the \<^verbatim>\<open>fs\<close> calls of the script only
  read it. \<open>readdirDirents\<close> is \<^verbatim>\<open>readdirSync(d, { withFileTypes: true })\<close>, each
  entry with its \<^verbatim>\<open>isDirectory()\<close>; \<open>readManifest\<close> is
  \<^verbatim>\<open>JSON.parse(fs.readFileSync(p, 'utf8'))\<close>.
\<close>

record 'w env =
  cwd :: "'w \<Rightarrow> string"
  isAbsolute :: "string \<Rightarrow> bool"
  join :: "string list \<Rightarrow> string"
  resolve :: "string list \<Rightarrow> string"
  basename :: "string \<Rightarrow> string"
  existsSync :: "'w \<Rightarrow> string \<Rightarrow> bool"
  readdirSync :: "'w \<Rightarrow> string \<Rightarrow> error + string list"
  readdirDirents :: "'w \<Rightarrow> string \<Rightarrow> error + (string \<times> bool) list"
  readManifest :: "'w \<Rightarrow> string \<Rightarrow> error + PkgJson"
  importConfig :: "string \<Rightarrow> 'w \<Rightarrow> (error + UserOverride option) \<times> 'w"
  build :: "ViteOpts \<Rightarrow> 'w \<Rightarrow> (error + unit) \<times> 'w"

text \<open>The observable events of a run, in order.\<close>

datatype arg = Str string | Thrown error

datatype event =
    ExistsSync string
  | ReaddirSync string
  | ReadManifest string
  | Import string
  | Build ViteOpts
  | ConsoleLog "arg list"
  | ConsoleError "arg list"

text \<open>\<^verbatim>\<open>function log(...s) { console.log('[build-packages-ts]', ...s) }\<close>\<close>

definition log :: "string list \<Rightarrow> event" where
  "log s = ConsoleLog (Str ''[build-packages-ts]'' # map Str s)"

subsection \<open>loadConfig\<close>

text \<open>
  \<^verbatim>\<open>async function loadConfig(configPath?: string)\<close>. The result is the event trace,
  the returned configuration or the thrown error, and the world after the call.
\<close>

definition absPathOf :: "'w env \<Rightarrow> 'w \<Rightarrow> string \<Rightarrow> string" where
  "absPathOf env w configPath =
     (if isAbsolute env configPath then configPath else resolve env [cwd env w, configPath])"

definition loadConfig ::
  "'w env \<Rightarrow> string option \<Rightarrow> 'w \<Rightarrow> event list \<times> (error + BuildConfig) \<times> 'w" where
  "loadConfig env configPath w =
     (case configPath of
        None \<Rightarrow> ([], Inr defaultConfig, w)
      | Some cp \<Rightarrow>
          if cp = [] then ([], Inr defaultConfig, w)
          else
            let absPath = absPathOf env w cp
            in if \<not> existsSync env w absPath
               then ([ExistsSync absPath],
                     Inl (Error (''Config file not found: '' @ absPath)), w)
               else
                 (case importConfig env absPath w of
                    (Inr userConfig, w') \<Rightarrow>
                      ([ExistsSync absPath, Import absPath],
                       Inr (spreadConfig defaultConfig userConfig), w')
                  | (Inl err, w') \<Rightarrow>
                      ([ExistsSync absPath, Import absPath,
                        ConsoleError [Str ''Failed to load config:'', Thrown err]],
                       Inr defaultConfig, w')))"

subsection \<open>buildPackage\<close>

text \<open>\<^verbatim>\<open>const pkgName = pkgJson.name || path.basename(pkgDir)\<close>\<close>

definition pkgName :: "'w env \<Rightarrow> string \<Rightarrow> PkgJson \<Rightarrow> string" where
  "pkgName env pkgDir pkgJson =
     (case pj_name pkgJson of
        Some n \<Rightarrow> if n \<noteq> [] then n else basename env pkgDir
      | None \<Rightarrow> basename env pkgDir)"

text \<open>
  \<^verbatim>\<open>const shortName = pkgName.includes('/') ? pkgName.split('/').pop()! : pkgName\<close>
\<close>

definition shortName :: "string \<Rightarrow> string" where
  "shortName name =
     (if CHR ''/'' \<in> set name then last (split CHR ''/'' name) else name)"

text \<open>
  \<^verbatim>\<open>const outRoot = opts.outRoot || path.resolve(process.cwd(), config.outRoot)\<close> and
  \<^verbatim>\<open>const outDir = path.join(outRoot, shortName.replace('@', '').replace('/', '-'))\<close>
\<close>

definition outRootOf :: "'w env \<Rightarrow> Opts \<Rightarrow> BuildConfig \<Rightarrow> 'w \<Rightarrow> string" where
  "outRootOf env opts config w =
     (if truthy (opt_outRoot opts) then the (opt_outRoot opts)
      else resolve env [cwd env w, outRoot config])"

definition outDirOf :: "'w env \<Rightarrow> string \<Rightarrow> string \<Rightarrow> string" where
  "outDirOf env outRoot' short =
     join env [outRoot', replace CHR ''/'' ''-'' (replace CHR ''@'' [] short)]"

text \<open>
  \<^verbatim>\<open>const tryEntryCandidates = [pkgJson.module, pkgJson.main, ...config.entryFiles]\<close>
\<close>

definition tryEntryCandidates :: "PkgJson \<Rightarrow> BuildConfig \<Rightarrow> string option list" where
  "tryEntryCandidates pkgJson config =
     [pj_module pkgJson, pj_main pkgJson] @ map Some (entryFiles config)"

text \<open>
  The candidate loop (lines 75 to 79):
  \<^verbatim>\<open>for (const cand of tryEntryCandidates) { if (!cand) continue; const p = ...; if (fs.existsSync(p)) { entry = p; break } }\<close>
  It returns the paths probed with \<^verbatim>\<open>fs.existsSync\<close>, in order, and the entry found.
\<close>

definition candidatePath :: "'w env \<Rightarrow> string \<Rightarrow> string \<Rightarrow> string" where
  "candidatePath env pkgDir cand =
     (if isAbsolute env cand then cand else join env [pkgDir, cand])"

fun findEntry ::
  "'w env \<Rightarrow> 'w \<Rightarrow> string \<Rightarrow> string option list \<Rightarrow> event list \<times> string option" where
  "findEntry env w pkgDir [] = ([], None)"
| "findEntry env w pkgDir (cand # rest) =
     (if \<not> truthy cand then findEntry env w pkgDir rest
      else
        let p = candidatePath env pkgDir (the cand)
        in if existsSync env w p then ([ExistsSync p], Some p)
           else (case findEntry env w pkgDir rest of
                   (ev, r) \<Rightarrow> (ExistsSync p # ev, r)))"

text \<open>The test \<^verbatim>\<open>/^index\.(ts|js|mjs|cjs|tsx)$/.test(f)\<close>.\<close>

definition isIndexFile :: "string \<Rightarrow> bool" where
  "isIndexFile f =
     (f \<in> set [''index.ts'', ''index.js'', ''index.mjs'', ''index.cjs'', ''index.tsx''])"

text \<open>
  The fallback (lines 81 to 86), entered when the loop left \<^verbatim>\<open>entry\<close> falsy:
  \<^verbatim>\<open>const files = fs.readdirSync(pkgDir); const idx = files.find(...); if (idx) entry = path.join(pkgDir, idx)\<close>
\<close>

definition fallbackEntry ::
  "'w env \<Rightarrow> 'w \<Rightarrow> string \<Rightarrow> string option \<Rightarrow> event list \<times> (error + string option)" where
  "fallbackEntry env w pkgDir entry =
     (if truthy entry then ([], Inr entry)
      else
        (case readdirSync env w pkgDir of
           Inl err \<Rightarrow> ([ReaddirSync pkgDir], Inl err)
         | Inr files \<Rightarrow>
             (let idx = find isIndexFile files
              in if truthy idx then ([ReaddirSync pkgDir], Inr (Some (join env [pkgDir, the idx])))
                 else ([ReaddirSync pkgDir], Inr entry))))"

text \<open>The message of the error thrown at line 89.\<close>

definition entryNotFound :: "string \<Rightarrow> string \<Rightarrow> BuildConfig \<Rightarrow> error" where
  "entryNotFound name pkgDir config =
     Error (''Cannot find entry for package '' @ name @ '' in '' @ pkgDir
            @ ''. Please set \"main\" or \"module\" in package.json or add one of: ''
            @ array_join '', '' (entryFiles config))"

text \<open>
  Lines 95 to 99. The \<^verbatim>\<open>Set\<close> is a list without repetition in insertion order,
  which is what \<^verbatim>\<open>Array.from(externals)\<close> returns.
\<close>

definition set_add :: "string \<Rightarrow> string list \<Rightarrow> string list" where
  "set_add d externals = (if d \<in> set externals then externals else externals @ [d])"

definition object_keys :: "(string \<times> string) list option \<Rightarrow> string list" where
  "object_keys obj = (case obj of None \<Rightarrow> [] | Some kvs \<Rightarrow> map fst kvs)"

text \<open>The test \<^verbatim>\<open>config.external?.(d)\<close>: false when no predicate is configured.\<close>

definition externalTest :: "BuildConfig \<Rightarrow> string \<Rightarrow> bool" where
  "externalTest config d = (case external config of None \<Rightarrow> False | Some f \<Rightarrow> f d)"

definition collectExternals :: "BuildConfig \<Rightarrow> PkgJson \<Rightarrow> string list" where
  "collectExternals config pkgJson =
     (let externals = foldl (\<lambda>ex d. set_add d ex) []
                        (object_keys (pj_peerDependencies pkgJson))
      in foldl (\<lambda>ex d. if externalTest config d then set_add d ex else ex)
           externals (object_keys (pj_dependencies pkgJson)))"

text \<open>The options of one format (lines 109 to 135).\<close>

definition userBuild :: "BuildConfig \<Rightarrow> BuildOptions option" where
  "userBuild config = (case vite config of None \<Rightarrow> None | Some v \<Rightarrow> uc_build v)"

definition userRollup :: "BuildConfig \<Rightarrow> RollupOptions option" where
  "userRollup config = (case userBuild config of None \<Rightarrow> None | Some b \<Rightarrow> rollupOptions b)"

definition userOutput :: "BuildConfig \<Rightarrow> OutputOptions option" where
  "userOutput config = (case userRollup config of None \<Rightarrow> None | Some r \<Rightarrow> rollup_output r)"

definition buildOptions ::
  "BuildConfig \<Rightarrow> string \<Rightarrow> string \<Rightarrow> string list \<Rightarrow> string \<Rightarrow> string \<Rightarrow> BuildOptions" where
  "buildOptions config entry short externals outDir' format =
     \<lparr> lib = Some \<lparr> lib_entry = entry, lib_name = short, lib_formats = [format],
                    lib_fileName = (\<lambda>f. short @ ''.'' @ f @ ''.js'') \<rparr>,
       rollupOptions = Some
         \<lparr> rollup_external = Some externals,
           rollup_output = Some
             \<lparr> output_globals =
                 (case userOutput config of
                    None \<Rightarrow> Some (globals config)
                  | Some out \<Rightarrow>
                      (case output_globals out of
                         None \<Rightarrow> Some (globals config)
                       | Some g \<Rightarrow> Some g)),
               output_other =
                 (case userOutput config of None \<Rightarrow> [] | Some out \<Rightarrow> output_other out) \<rparr>,
           rollup_other =
             (case userRollup config of None \<Rightarrow> [] | Some r \<Rightarrow> rollup_other r) \<rparr>,
       outDir = Some outDir',
       build_other = (case userBuild config of None \<Rightarrow> [] | Some b \<Rightarrow> build_other b) \<rparr>"

definition optsForVite ::
  "BuildConfig \<Rightarrow> string \<Rightarrow> string option \<Rightarrow> BuildOptions \<Rightarrow> ViteOpts" where
  "optsForVite config pkgDir configFilePath bo =
     \<lparr> configFile = configFilePath, root = pkgDir, plugins = [vue config], vo_build = bo \<rparr>"

text \<open>
  The loop over the formats (lines 107 to 139). \<open>mk\<close> gives the options of a format and
  \<open>cf\<close> is \<^verbatim>\<open>configFilePath\<close>. A failing \<^verbatim>\<open>await build(...)\<close> leaves the loop with the
  error.
\<close>

fun buildFormats ::
  "'w env \<Rightarrow> (string \<Rightarrow> ViteOpts) \<Rightarrow> string option \<Rightarrow> string list \<Rightarrow> 'w
   \<Rightarrow> event list \<times> (error + unit) \<times> 'w" where
  "buildFormats env mk cf [] w = ([], Inr (), w)"
| "buildFormats env mk cf (format # rest) w =
     (let line = log [''vite.build -> format='' @ format @ '' (configFile=''
                      @ (if truthy cf then ''yes'' else ''no'') @ '')'']
      in case build env (mk format) w of
           (Inl err, w1) \<Rightarrow> ([line, Build (mk format)], Inl err, w1)
         | (Inr u, w1) \<Rightarrow>
             (case buildFormats env mk cf rest w1 of
                (ev, r, w2) \<Rightarrow> (line # Build (mk format) # ev, r, w2)))"

text \<open>
  The \<^verbatim>\<open>try { for ... } catch (err) { log('Build failed for', pkgName); throw err }\<close>
  around the loop (lines 106 to 143): the caught error is thrown again as it is.
\<close>

definition tryBuild ::
  "'w env \<Rightarrow> string \<Rightarrow> (string \<Rightarrow> ViteOpts) \<Rightarrow> string option \<Rightarrow> string list \<Rightarrow> 'w
   \<Rightarrow> event list \<times> (error + unit) \<times> 'w" where
  "tryBuild env name mk cf fmts w =
     (case buildFormats env mk cf fmts w of
        (ev, Inl err, w') \<Rightarrow> (ev @ [log [''Build failed for'', name]], Inl err, w')
      | (ev, Inr u, w') \<Rightarrow> (ev, Inr (), w'))"

text \<open>
  \<^verbatim>\<open>async function buildPackage(pkgDir, pkgJson, opts, config)\<close>, from line 61 on: the
  two dynamic imports of the bundler and of its plugin at the top are taken to succeed.
\<close>

definition buildPackage ::
  "'w env \<Rightarrow> string \<Rightarrow> PkgJson \<Rightarrow> Opts \<Rightarrow> BuildConfig \<Rightarrow> 'w
   \<Rightarrow> event list \<times> (error + unit) \<times> 'w" where
  "buildPackage env pkgDir pkgJson opts config w =
     (let name = pkgName env pkgDir pkgJson;
          short = shortName name;
          fmts = (case opt_formats opts of Some f \<Rightarrow> f | None \<Rightarrow> formats config);
          outDir' = outDirOf env (outRootOf env opts config w) short
      in case findEntry env w pkgDir (tryEntryCandidates pkgJson config) of
           (ev1, entry1) \<Rightarrow>
             (case fallbackEntry env w pkgDir entry1 of
                (ev2, Inl err) \<Rightarrow> (ev1 @ ev2, Inl err, w)
              | (ev2, Inr entry2) \<Rightarrow>
                  if \<not> truthy entry2
                  then (ev1 @ ev2, Inl (entryNotFound name pkgDir config), w)
                  else
                    let entry = the entry2;
                        building = log [''Building'', name, ''entry='', entry, ''formats='',
                                        array_join '','' fmts, ''outDir='', outDir'];
                        externals = collectExternals config pkgJson;
                        viteConfig = join env [pkgDir, ''vite.config.ts''];
                        configFilePath =
                          (if existsSync env w viteConfig then Some viteConfig else None);
                        mk = (\<lambda>format. optsForVite config pkgDir configFilePath
                                (buildOptions config entry short externals outDir' format))
                    in (case tryBuild env name mk configFilePath fmts w of
                          (ev3, r, w') \<Rightarrow>
                            (ev1 @ ev2 @ [building, ExistsSync viteConfig] @ ev3, r, w'))))"

subsection \<open>buildSingleComponent\<close>

text \<open>
  Lines 150 to 156: \<^verbatim>\<open>index.ts\<close> in the component directory, else the first name
  ending in \<^verbatim>\<open>.vue\<close> that \<^verbatim>\<open>fs.readdirSync(compDir)\<close> lists, placed under \<^verbatim>\<open>src\<close>.
\<close>

definition vueStep :: "'w env \<Rightarrow> 'w \<Rightarrow> string \<Rightarrow> event list \<times> (error + string)" where
  "vueStep env w compDir =
     (let entry = join env [compDir, ''index.ts'']
      in if existsSync env w entry then ([ExistsSync entry], Inr entry)
         else
           (case readdirSync env w compDir of
              Inl err \<Rightarrow> ([ExistsSync entry, ReaddirSync compDir], Inl err)
            | Inr files \<Rightarrow>
                (let vueFile = find (\<lambda>f. endsWith f ''.vue'') files
                 in ([ExistsSync entry, ReaddirSync compDir],
                     Inr (if truthy vueFile then join env [compDir, ''src'', the vueFile]
                          else entry)))))"

text \<open>Lines 157 to 161: \<^verbatim>\<open>src/index.ts\<close> when the entry so far does not exist.\<close>

definition altStep :: "'w env \<Rightarrow> 'w \<Rightarrow> string \<Rightarrow> string \<Rightarrow> event list \<times> string" where
  "altStep env w compDir entry =
     (if \<not> existsSync env w entry
      then (let alt = join env [compDir, ''src'', ''index.ts'']
            in ([ExistsSync entry, ExistsSync alt],
                if existsSync env w alt then alt else entry))
      else ([ExistsSync entry], entry))"

text \<open>Lines 150 to 162 together: the entry of the component, or the error of line 162.\<close>

definition componentEntry ::
  "'w env \<Rightarrow> 'w \<Rightarrow> string \<Rightarrow> string \<Rightarrow> event list \<times> (error + string)" where
  "componentEntry env w compDir componentName =
     (case vueStep env w compDir of
        (ev1, Inl err) \<Rightarrow> (ev1, Inl err)
      | (ev1, Inr entry1) \<Rightarrow>
          (case altStep env w compDir entry1 of
             (ev2, entry2) \<Rightarrow>
               if \<not> existsSync env w entry2
               then (ev1 @ ev2 @ [ExistsSync entry2],
                     Inl (Error (''Cannot find entry for component '' @ componentName
                                 @ '' in '' @ compDir)))
               else (ev1 @ ev2 @ [ExistsSync entry2], Inr entry2)))"

definition tmpPkgJson :: "string \<Rightarrow> PkgJson" where
  "tmpPkgJson componentName =
     \<lparr> pj_name = Some (''@lx/'' @ componentName), pj_module = None, pj_main = None,
       pj_peerDependencies = None, pj_dependencies = None \<rparr>"

text \<open>
  \<^verbatim>\<open>async function buildSingleComponent(componentsDir, componentName, opts, config)\<close>.
  The entry found above is only checked for: \<^verbatim>\<open>buildPackage\<close> is called with the
  component directory and a manifest holding a name, and resolves its entry again.
\<close>

definition buildSingleComponent ::
  "'w env \<Rightarrow> string \<Rightarrow> string \<Rightarrow> Opts \<Rightarrow> BuildConfig \<Rightarrow> 'w
   \<Rightarrow> event list \<times> (error + unit) \<times> 'w" where
  "buildSingleComponent env componentsDir componentName opts config w =
     (let compDir = join env [componentsDir, componentName]
      in if \<not> existsSync env w compDir
         then ([ExistsSync compDir],
               Inl (Error (''component '' @ componentName @ '' not found in '' @ componentsDir)),
               w)
         else
           (case componentEntry env w compDir componentName of
              (ev1, Inl err) \<Rightarrow> (ExistsSync compDir # ev1, Inl err, w)
            | (ev1, Inr entry) \<Rightarrow>
                (case buildPackage env compDir (tmpPkgJson componentName) opts config w of
                   (ev2, r, w') \<Rightarrow> (ExistsSync compDir # ev1 @ ev2, r, w'))))"

subsection \<open>main\<close>

text \<open>
  Lines 191 to 195: the directories among the entries of \<^verbatim>\<open>packages\<close> that hold a
  \<^verbatim>\<open>package.json\<close>, with the probes made.
\<close>

definition candidateDirs :: "'w env \<Rightarrow> string \<Rightarrow> (string \<times> bool) list \<Rightarrow> string list" where
  "candidateDirs env packagesDir entries =
     map (\<lambda>d. join env [packagesDir, fst d]) (filter snd entries)"

definition pkgDirsOf ::
  "'w env \<Rightarrow> 'w \<Rightarrow> string \<Rightarrow> (string \<times> bool) list \<Rightarrow> event list \<times> string list" where
  "pkgDirsOf env w packagesDir entries =
     (map (\<lambda>dir. ExistsSync (join env [dir, ''package.json'']))
        (candidateDirs env packagesDir entries),
      filter (\<lambda>dir. existsSync env w (join env [dir, ''package.json'']))
        (candidateDirs env packagesDir entries))"

text \<open>Lines 198 to 201: \<^verbatim>\<open>pkgDirs.find(d => ...)\<close>, whose callback reads each manifest.\<close>

fun findTarget ::
  "'w env \<Rightarrow> 'w \<Rightarrow> string \<Rightarrow> string list \<Rightarrow> event list \<times> (error + string option)" where
  "findTarget env w p [] = ([], Inr None)"
| "findTarget env w p (d # ds) =
     (let mf = join env [d, ''package.json'']
      in case readManifest env w mf of
           Inl err \<Rightarrow> ([ReadManifest mf], Inl err)
         | Inr pj \<Rightarrow>
             if pj_name pj = Some p \<or> basename env d = p
             then ([ReadManifest mf], Inr (Some d))
             else (case findTarget env w p ds of (ev, r) \<Rightarrow> (ReadManifest mf # ev, r)))"

text \<open>Lines 210 to 213: \<^verbatim>\<open>for (const dir of pkgDirs) { ...; await buildPackage(dir, pj, opts, config) }\<close>\<close>

fun buildAll ::
  "'w env \<Rightarrow> string list \<Rightarrow> Opts \<Rightarrow> BuildConfig \<Rightarrow> 'w \<Rightarrow> event list \<times> (error + unit) \<times> 'w" where
  "buildAll env [] opts config w = ([], Inr (), w)"
| "buildAll env (dir # rest) opts config w =
     (let mf = join env [dir, ''package.json'']
      in case readManifest env w mf of
           Inl err \<Rightarrow> ([ReadManifest mf], Inl err, w)
         | Inr pj \<Rightarrow>
             (case buildPackage env dir pj opts config w of
                (ev, Inl err, w1) \<Rightarrow> (ReadManifest mf # ev, Inl err, w1)
              | (ev, Inr u, w1) \<Rightarrow>
                  (case buildAll env rest opts config w1 of
                     (ev', r, w2) \<Rightarrow> (ReadManifest mf # ev @ ev', r, w2))))"

text \<open>How a run of \<^verbatim>\<open>main\<close> ends: it returns, calls \<^verbatim>\<open>process.exit\<close>, or throws.\<close>

datatype outcome = Returned | Exited int | Threw error

text \<open>Lines 197 to 207, the branch of \<^verbatim>\<open>--pkg\<close>.\<close>

definition buildOne ::
  "'w env \<Rightarrow> string \<Rightarrow> string list \<Rightarrow> Opts \<Rightarrow> BuildConfig \<Rightarrow> 'w
   \<Rightarrow> event list \<times> outcome \<times> 'w" where
  "buildOne env p pkgDirs opts config w =
     (case findTarget env w p pkgDirs of
        (ev1, Inl err) \<Rightarrow> (ev1, Threw err, w)
      | (ev1, Inr target) \<Rightarrow>
          if \<not> truthy target
          then (ev1, Threw (Error (''package '' @ p @ '' not found'')), w)
          else
            (let mf = join env [the target, ''package.json'']
             in case readManifest env w mf of
                  Inl err \<Rightarrow> (ev1 @ [ReadManifest mf], Threw err, w)
                | Inr pj \<Rightarrow>
                    (case buildPackage env (the target) pj opts config w of
                       (ev2, Inl err, w') \<Rightarrow> (ev1 @ [ReadManifest mf] @ ev2, Threw err, w')
                     | (ev2, Inr u, w') \<Rightarrow>
                         (ev1 @ [ReadManifest mf] @ ev2
                            @ [log [''Package build complete for'', p]],
                          Returned, w'))))"

text \<open>
  \<^verbatim>\<open>async function main()\<close>, given the options that \<^verbatim>\<open>parseArgs\<close> returned.
\<close>

definition main :: "'w env \<Rightarrow> Opts \<Rightarrow> 'w \<Rightarrow> event list \<times> outcome \<times> 'w" where
  "main env opts w =
     (case loadConfig env (opt_config opts) w of
        (ev0, Inl err, w0) \<Rightarrow> (ev0, Threw err, w0)
      | (ev0, Inr config, w0) \<Rightarrow>
          (let root' = resolve env [cwd env w0];
               packagesDir = join env [root', ''packages'']
           in if \<not> existsSync env w0 packagesDir
              then (ev0 @ [ExistsSync packagesDir,
                           ConsoleError [Str ''packages directory not found:'', Str packagesDir]],
                    Exited 1, w0)
              else if truthy (component opts)
              then
                (let componentsDir = join env [packagesDir, ''components'']
                 in if \<not> existsSync env w0 componentsDir
                    then (ev0 @ [ExistsSync packagesDir, ExistsSync componentsDir],
                          Threw (Error ''components package not found''), w0)
                    else
                      (case buildSingleComponent env componentsDir (the (component opts))
                              opts config w0 of
                         (ev1, Inl err, w1) \<Rightarrow>
                           (ev0 @ [ExistsSync packagesDir, ExistsSync componentsDir] @ ev1,
                            Threw err, w1)
                       | (ev1, Inr u, w1) \<Rightarrow>
                           (ev0 @ [ExistsSync packagesDir, ExistsSync componentsDir] @ ev1
                              @ [log [''Single component build complete'']],
                            Returned, w1)))
              else
                (case readdirDirents env w0 packagesDir of
                   Inl err \<Rightarrow>
                     (ev0 @ [ExistsSync packagesDir, ReaddirSync packagesDir], Threw err, w0)
                 | Inr entries \<Rightarrow>
                     (case pkgDirsOf env w0 packagesDir entries of
                        (ev1, pkgDirs) \<Rightarrow>
                          if truthy (pkg opts)
                          then
                            (case buildOne env (the (pkg opts)) pkgDirs opts config w0 of
                               (ev2, r, w1) \<Rightarrow>
                                 (ev0 @ [ExistsSync packagesDir, ReaddirSync packagesDir]
                                    @ ev1 @ ev2, r, w1))
                          else
                            (case buildAll env pkgDirs opts config w0 of
                               (ev2, Inl err, w1) \<Rightarrow>
                                 (ev0 @ [ExistsSync packagesDir, ReaddirSync packagesDir]
                                    @ ev1 @ ev2, Threw err, w1)
                             | (ev2, Inr u, w1) \<Rightarrow>
                                 (ev0 @ [ExistsSync packagesDir, ReaddirSync packagesDir]
                                    @ ev1 @ ev2 @ [log [''All packages built'']],
                                  Returned, w1))))))"

text \<open>
  The last statement of the script,
  \<^verbatim>\<open>main().catch(err => { console.error(err); process.exit(1) })\<close>: the trace and the
  exit status of the process.
\<close>

definition script :: "'w env \<Rightarrow> Opts \<Rightarrow> 'w \<Rightarrow> event list \<times> int \<times> 'w" where
  "script env opts w =
     (case main env opts w of
        (ev, Threw err, w') \<Rightarrow> (ev @ [ConsoleError [Thrown err]], 1, w')
      | (ev, Exited code, w') \<Rightarrow> (ev, code, w')
      | (ev, Returned, w') \<Rightarrow> (ev, 0, w'))"

subsection \<open>deepClone\<close>

text \<open>
  JavaScript values: the primitives, a reference to a function (\<^verbatim>\<open>typeof\<close> gives
  \<^verbatim>\<open>'function'\<close>), and a reference to an object (\<^verbatim>\<open>typeof\<close> gives \<^verbatim>\<open>'object'\<close>). An
  object lives in the heap, a list of objects indexed by address; creating an object
  appends it to the heap.

  Of an object the model keeps what \<^verbatim>\<open>deepClone\<close> reads: its own enumerable properties
  with string keys, in enumeration order, each a data property (no getter), with distinct
  keys. The built-in prototypes are as the language defines them (nothing was added to
  \<^verbatim>\<open>Object.prototype\<close> or \<^verbatim>\<open>Array.prototype\<close>). An object is
  \<^item> a \<^verbatim>\<open>Date\<close> with its time value (\<^verbatim>\<open>deepClone\<close> reads nothing else of it);
  \<^item> an array, with its elements up to \<^verbatim>\<open>length\<close>, \<open>None\<close> for a hole, and its further
    own properties;
  \<^item> a plain object, whose prototype is \<^verbatim>\<open>Object.prototype\<close>;
  \<^item> an object of another class, named, that inherits \<^verbatim>\<open>hasOwnProperty\<close> from
    \<^verbatim>\<open>Object.prototype\<close> (a \<^verbatim>\<open>RegExp\<close>, a \<^verbatim>\<open>Map\<close>, an instance of a class);
  \<^item> an object whose prototype was replaced by the given value (\<^verbatim>\<open>null\<close> or an
    object), as an assignment to \<^verbatim>\<open>__proto__\<close> does.
\<close>

datatype val =
  VUndefined | VNull | VBool bool | VNum int | VStr string | VFun nat | VRef nat

datatype obj =
    ODate int
  | OArray "val option list" "(string \<times> val) list"
  | OPlain "(string \<times> val) list"
  | OOther string "(string \<times> val) list"
  | OProto val "(string \<times> val) list"









subsection \<open>Notions used in the statements\<close>

text \<open>The bundler invocations of a trace, in order.\<close>

fun builds :: "event list \<Rightarrow> ViteOpts list" where
  "builds [] = []"
| "builds (Build x # ev) = x # builds ev"
| "builds (e # ev) = builds ev"

text \<open>
  The entry search as the specification words it: the manifest's \<^verbatim>\<open>module\<close> field,
  then its \<^verbatim>\<open>main\<close> field, then each name of \<^verbatim>\<open>entryFiles\<close> in list order, each
  joined to the package directory unless it is absolute. A field that is absent or empty
  and an empty name are no candidates.
\<close>

definition usable :: "string option list \<Rightarrow> string list" where
  "usable cands = map the (filter truthy cands)"

definition spec_candidates :: "'w env \<Rightarrow> string \<Rightarrow> PkgJson \<Rightarrow> BuildConfig \<Rightarrow> string list" where
  "spec_candidates env pkgDir pkgJson config =
     map (\<lambda>c. if isAbsolute env c then c else join env [pkgDir, c])
       (usable [pj_module pkgJson] @ usable [pj_main pkgJson]
        @ filter (\<lambda>c. c \<noteq> []) (entryFiles config))"










subsection \<open>A host for the examples\<close>

text \<open>
  A small POSIX host on which the statements are run: the world is the list of the
  regular files on disk, a directory exists when a file lies below it, and paths are
  joined with \<^verbatim>\<open>/\<close> (as Node does for segments that are already normalised). The
  bundler fails on the format \<^verbatim>\<open>cjs\<close> and succeeds on the others; importing a
  configuration module fails.
\<close>

definition posix_isAbsolute :: "string \<Rightarrow> bool" where
  "posix_isAbsolute s = (case s of [] \<Rightarrow> False | c # cs \<Rightarrow> c = CHR ''/'')"

definition posix_join :: "string list \<Rightarrow> string" where
  "posix_join segs = array_join ''/'' segs"

definition posix_resolve :: "string list \<Rightarrow> string" where
  "posix_resolve segs =
     foldl (\<lambda>acc s. if posix_isAbsolute s then s else acc @ ''/'' @ s) [] segs"

definition posix_basename :: "string \<Rightarrow> string" where
  "posix_basename s = last (split CHR ''/'' s)"

definition disk_exists :: "string list \<Rightarrow> string \<Rightarrow> bool" where
  "disk_exists files p = list_ex (\<lambda>f. f = p \<or> prefix (p @ ''/'') f) files"

definition disk_children :: "string list \<Rightarrow> string \<Rightarrow> string list" where
  "disk_children files p = map (drop (length p + 1)) (filter (prefix (p @ ''/'')) files)"

definition disk_readdir :: "string list \<Rightarrow> string \<Rightarrow> error + string list" where
  "disk_readdir files p =
     (if disk_children files p = []
      then Inl (Error (''ENOENT: no such file or directory, scandir '' @ p))
      else Inr (remdups (map (takeWhile (\<lambda>c. c \<noteq> CHR ''/'')) (disk_children files p))))"

definition disk_dirents :: "string list \<Rightarrow> string \<Rightarrow> error + (string \<times> bool) list" where
  "disk_dirents files p =
     (if disk_children files p = []
      then Inl (Error (''ENOENT: no such file or directory, scandir '' @ p))
      else Inr (remdups (map (\<lambda>r. (takeWhile (\<lambda>c. c \<noteq> CHR ''/'') r, CHR ''/'' \<in> set r))
                           (disk_children files p))))"

definition foo_manifest :: PkgJson where
  "foo_manifest =
     \<lparr> pj_name = Some ''@lx/foo'', pj_module = None, pj_main = None,
       pj_peerDependencies = Some [(''vue'', ''*'')],
       pj_dependencies = Some [(''@lx/bar'', ''*''), (''lodash'', ''*'')] \<rparr>"

definition bar_manifest :: PkgJson where
  "bar_manifest =
     \<lparr> pj_name = Some ''@lx/bar'', pj_module = Some ''lib/bar.mjs'',
       pj_main = Some ''lib/bar.cjs'',
       pj_peerDependencies = None, pj_dependencies = None \<rparr>"

definition docs_manifest :: PkgJson where
  "docs_manifest =
     \<lparr> pj_name = Some ''@lx/docs'', pj_module = None, pj_main = Some ''lib/docs.js'',
       pj_peerDependencies = None, pj_dependencies = None \<rparr>"

text \<open>A manifest that lists the package itself among its peer dependencies.\<close>

definition icons_manifest :: PkgJson where
  "icons_manifest =
     \<lparr> pj_name = Some ''@lx/icons'', pj_module = None, pj_main = None,
       pj_peerDependencies = Some [(''vue'', ''*''), (''@lx/icons'', ''*'')],
       pj_dependencies = None \<rparr>"

definition demo_manifests :: "(string \<times> PkgJson) list" where
  "demo_manifests =
     [(''/repo/packages/foo/package.json'', foo_manifest),
      (''/repo/packages/bar/package.json'', bar_manifest),
      (''/repo/packages/docs/package.json'', docs_manifest)]"

definition demo_readManifest :: "string list \<Rightarrow> string \<Rightarrow> error + PkgJson" where
  "demo_readManifest files p =
     (case map_of demo_manifests p of
        None \<Rightarrow> Inl (Error (''ENOENT: no such file or directory, open '' @ p))
      | Some pj \<Rightarrow>
          if p \<in> set files then Inr pj
          else Inl (Error (''ENOENT: no such file or directory, open '' @ p)))"

definition demo_build :: "ViteOpts \<Rightarrow> string list \<Rightarrow> (error + unit) \<times> string list" where
  "demo_build x files =
     (case lib (vo_build x) of
        None \<Rightarrow> (Inl (Error ''build.lib is not set''), files)
      | Some l \<Rightarrow>
          if lib_formats l = [''cjs'']
          then (Inl (Error ''Rollup failed to resolve import''), files)
          else (Inr (), files))"

definition demo_env :: "string list env" where
  "demo_env =
     \<lparr> cwd = (\<lambda>w. ''/repo''), isAbsolute = posix_isAbsolute, join = posix_join,
       resolve = posix_resolve, basename = posix_basename,
       existsSync = disk_exists, readdirSync = disk_readdir, readdirDirents = disk_dirents,
       readManifest = demo_readManifest,
       importConfig = (\<lambda>p w. (Inl (Error ''SyntaxError: Unexpected token''), w)),
       build = demo_build \<rparr>"

definition demo_disk :: "string list" where
  "demo_disk =
     [''/repo/packages/foo/package.json'',
      ''/repo/packages/foo/index.ts'',
      ''/repo/packages/bar/package.json'',
      ''/repo/packages/bar/lib/bar.mjs'',
      ''/repo/packages/docs/package.json'',
      ''/repo/packages/docs/README.md'',
      ''/repo/packages/components/button/src/Button.vue'',
      ''/repo/broken.config.ts'']"

definition no_opts :: Opts where
  "no_opts = \<lparr> pkg = None, component = None, opt_formats = None, opt_outRoot = None,
               opt_config = None \<rparr>"








section \<open>Properties\<close>

subsection \<open>The built-in external predicate\<close>

lemma startsWith_prefix: "startsWith s p = prefix p s"
  unfolding startsWith_def prefix_def
proof
  assume "take (length p) s = p"
  then have "s = p @ drop (length p) s"
    by (metis append_take_drop_id)
  then show "\<exists>zs. s = p @ zs" ..
next
  assume "\<exists>zs. s = p @ zs"
  then show "take (length p) s = p" by auto
qed

text \<open>
  C6. The external predicate of the built-in configuration returns true for the name
  \<^verbatim>\<open>vue\<close>; on every name it returns exactly the negation of "the name starts with
  \<^verbatim>\<open>@lx/\<close>", so it is true for every name outside that scope and false for every
  name inside it.
\<close>

theorem default_external_spec:
  "default_external ''vue''
   \<and> default_external d = (\<not> prefix ''@lx/'' d)"
  by (simp add: default_external_def startsWith_prefix)

subsection \<open>Auxiliary facts\<close>

lemma split_nonempty: "split c s \<noteq> []"
  by (induction s) (auto split: list.splits)

lemma split_no_sep: "c \<notin> set s \<Longrightarrow> split c s = [s]"
  by (induction s) auto

lemma length_split: "length (split c s) = Suc (length (filter (\<lambda>x. x = c) s))"
  by (induction s) (auto split: list.splits)

lemma split_sep_length: "c \<in> set s \<Longrightarrow> 2 \<le> length (split c s)"
proof -
  assume "c \<in> set s"
  then have "filter (\<lambda>x. x = c) s \<noteq> []"
    by (simp add: filter_empty_conv)
  then show ?thesis
    by (cases "filter (\<lambda>x. x = c) s") (auto simp: length_split)
qed

lemma last_split_Cons:
  "last (split c (x # xs)) =
     (if c \<in> set xs \<or> x = c then last (split c xs) else x # xs)"
proof (cases "x = c")
  case True
  then show ?thesis using split_nonempty[of c xs] by simp
next
  case False
  show ?thesis
  proof (cases "c \<in> set xs")
    case True
    then obtain seg s2 segs where "split c xs = seg # s2 # segs"
      using split_sep_length[OF True]
      by (cases "split c xs"; cases "tl (split c xs)") auto
    then show ?thesis using False True by simp
  next
    case False
    then show ?thesis using \<open>x \<noteq> c\<close> by (simp add: split_no_sep)
  qed
qed

lemma last_split_takeWhile:
  "last (split c s) = rev (takeWhile (\<lambda>x. x \<noteq> c) (rev s))"
proof (induction s)
  case Nil
  then show ?case by simp
next
  case (Cons x xs)
  show ?case
  proof (cases "c \<in> set xs")
    case True
    then have "takeWhile (\<lambda>x. x \<noteq> c) (rev xs @ [x]) = takeWhile (\<lambda>x. x \<noteq> c) (rev xs)"
      by (intro takeWhile_append1[of c]) auto
    then show ?thesis using True Cons by (simp add: last_split_Cons del: split.simps)
  next
    case False
    then have "takeWhile (\<lambda>x. x \<noteq> c) (rev xs @ [x])
                 = rev xs @ takeWhile (\<lambda>x. x \<noteq> c) [x]"
      by (intro takeWhile_append2) auto
    then show ?thesis using False Cons
      by (auto simp add: last_split_Cons split_no_sep simp del: split.simps)
  qed
qed

lemma shortName_suffix:
  "CHR ''/'' \<notin> set (shortName n)
   \<and> (\<exists>pre. n = pre @ shortName n \<and> (pre = [] \<or> last pre = CHR ''/''))"
proof -
  let ?P = "\<lambda>x. x \<noteq> CHR ''/''"
  have "shortName n = last (split CHR ''/'' n)"
    by (simp add: shortName_def split_no_sep)
  then have sn: "shortName n = rev (takeWhile ?P (rev n))"
    by (simp only: last_split_takeWhile)
  have a: "CHR ''/'' \<notin> set (shortName n)"
    unfolding sn by (auto dest: set_takeWhileD)
  let ?pre = "rev (dropWhile ?P (rev n))"
  have "rev n = takeWhile ?P (rev n) @ dropWhile ?P (rev n)" by simp
  then have "rev (rev n) = rev (takeWhile ?P (rev n) @ dropWhile ?P (rev n))" by simp
  then have b: "n = ?pre @ shortName n" unfolding sn by (simp only: rev_append rev_rev_ident)
  have c: "?pre = [] \<or> last ?pre = CHR ''/''"
  proof (cases "dropWhile ?P (rev n)")
    case Nil
    then show ?thesis by simp
  next
    case (Cons y ys)
    then have "\<not> ?P y" using hd_dropWhile[of ?P "rev n"] by (metis list.sel(1) list.distinct(1))
    then show ?thesis using Cons by simp
  qed
  show ?thesis using a b c by blast
qed

lemma replace_notin: "c \<notin> set s \<Longrightarrow> replace c r s = s"
  by (induction s) auto

lemma replace_remove1: "replace c [] s = remove1 c s"
  by (induction s) auto


lemma set_foldl_set_add:
  "set (foldl (\<lambda>ex d. set_add d ex) acc ds) = set acc \<union> set ds"
  by (induction ds arbitrary: acc) (auto simp: set_add_def)

lemma set_foldl_set_add_if:
  "set (foldl (\<lambda>ex d. if P d then set_add d ex else ex) acc ds)
     = set acc \<union> {d \<in> set ds. P d}"
  by (induction ds arbitrary: acc) (auto simp: set_add_def)

lemma set_collectExternals:
  "set (collectExternals config pkgJson)
     = set (object_keys (pj_peerDependencies pkgJson))
       \<union> {d \<in> set (object_keys (pj_dependencies pkgJson)). externalTest config d}"
  by (simp add: collectExternals_def set_foldl_set_add set_foldl_set_add_if)

lemma usable_Cons: "usable (c # cs) = (if truthy c then the c # usable cs else usable cs)"
  by (simp add: usable_def)

lemma usable_Nil: "usable [] = []"
  by (simp add: usable_def)

lemma usable_append: "usable (xs @ ys) = usable xs @ usable ys"
  by (simp add: usable_def)

lemma usable_map_Some: "usable (map Some cs) = filter (\<lambda>c. c \<noteq> []) cs"
  by (induction cs) (auto simp: usable_def)

lemma findEntry_find:
  "snd (findEntry env w pkgDir cands)
     = find (existsSync env w) (map (candidatePath env pkgDir) (usable cands))"
  by (induction cands) (auto simp: usable_Cons usable_Nil Let_def split: prod.splits)

lemma findEntry_probes:
  "fst (findEntry env w pkgDir cands)
     = map ExistsSync
         (takeWhile (\<lambda>p. \<not> existsSync env w p) (map (candidatePath env pkgDir) (usable cands))
          @ (case find (existsSync env w) (map (candidatePath env pkgDir) (usable cands)) of
               None \<Rightarrow> [] | Some p \<Rightarrow> [p]))"
  by (induction cands) (auto simp: usable_Cons usable_Nil Let_def split: prod.splits)

lemma spec_candidates_usable:
  "spec_candidates env pkgDir pkgJson config
     = map (candidatePath env pkgDir) (usable (tryEntryCandidates pkgJson config))"
  by (simp add: spec_candidates_def tryEntryCandidates_def usable_append usable_map_Some
        usable_Cons usable_Nil candidatePath_def)


lemma findEntry_none:
  assumes "\<forall>p \<in> set (map (candidatePath env pkgDir) (usable cands)). \<not> existsSync env w p"
  shows "findEntry env w pkgDir cands
           = (map ExistsSync (map (candidatePath env pkgDir) (usable cands)), None)"
  using assms
  by (induction cands) (auto simp: usable_Cons usable_Nil Let_def split: prod.splits)

lemma find_None_iff': "find P xs = None \<longleftrightarrow> (\<forall>x \<in> set xs. \<not> P x)"
  by (induction xs) auto

lemma builds_append: "builds (xs @ ys) = builds xs @ builds ys"
  by (induction xs rule: builds.induct) auto

lemma builds_set: "Build x \<in> set ev \<longleftrightarrow> x \<in> set (builds ev)"
  by (induction ev rule: builds.induct) auto

lemma builds_log: "builds (log s # ev) = builds ev"
  by (simp add: log_def)

lemma buildFormats_prefix:
  "buildFormats env mk cf fmts w = (ev, r, w') \<Longrightarrow> prefix (builds ev) (map mk fmts)"
proof (induction fmts arbitrary: w ev r w')
  case Nil
  then show ?case by simp
next
  case (Cons f fs)
  show ?case
  proof (cases "build env (mk f) w")
    case (Pair res w1)
    show ?thesis
    proof (cases res)
      case (Inl err)
      then show ?thesis using Cons.prems Pair by (auto simp: Let_def builds_log)
    next
      case (Inr u)
      obtain ev2 r2 w2 where rest: "buildFormats env mk cf fs w1 = (ev2, r2, w2)"
        by (cases "buildFormats env mk cf fs w1") auto
      from Cons.IH[OF rest] show ?thesis
        using Cons.prems Pair Inr rest by (auto simp: Let_def builds_log)
    qed
  qed
qed

lemma buildFormats_all:
  "buildFormats env mk cf fmts w = (ev, Inr u, w') \<Longrightarrow> builds ev = map mk fmts"
proof (induction fmts arbitrary: w ev w')
  case Nil
  then show ?case by simp
next
  case (Cons f fs)
  show ?case
  proof (cases "build env (mk f) w")
    case (Pair res w1)
    show ?thesis
    proof (cases res)
      case (Inl err)
      then show ?thesis using Cons.prems Pair by (auto simp: Let_def)
    next
      case (Inr u')
      obtain ev2 r2 w2 where rest: "buildFormats env mk cf fs w1 = (ev2, r2, w2)"
        by (cases "buildFormats env mk cf fs w1") auto
      then have "r2 = Inr u" "ev = log [''vite.build -> format='' @ f @ '' (configFile=''
                      @ (if truthy cf then ''yes'' else ''no'') @ '')''] # Build (mk f) # ev2"
         "w' = w2"
        using Cons.prems Pair Inr by (auto simp: Let_def)
      then show ?thesis using Cons.IH[of w1 ev2 w2] rest by (simp add: builds_log)
    qed
  qed
qed

lemma buildFormats_append:
  "buildFormats env mk cf (xs @ ys) w =
     (case buildFormats env mk cf xs w of
        (ev, Inl err, w1) \<Rightarrow> (ev, Inl err, w1)
      | (ev, Inr u, w1) \<Rightarrow>
          (case buildFormats env mk cf ys w1 of (ev', r, w2) \<Rightarrow> (ev @ ev', r, w2)))"
  by (induction xs arbitrary: w) (auto simp: Let_def split: prod.splits sum.splits)

lemma buildAll_append:
  "buildAll env (xs @ ys) opts config w =
     (case buildAll env xs opts config w of
        (ev, Inl err, w1) \<Rightarrow> (ev, Inl err, w1)
      | (ev, Inr u, w1) \<Rightarrow>
          (case buildAll env ys opts config w1 of (ev', r, w2) \<Rightarrow> (ev @ ev', r, w2)))"
  by (induction xs arbitrary: w) (auto simp: Let_def split: prod.splits sum.splits)

lemma builds_findEntry: "builds (fst (findEntry env w pkgDir cands)) = []"
  by (induction cands) (auto simp: Let_def split: prod.splits)

lemma builds_fallbackEntry: "builds (fst (fallbackEntry env w pkgDir entry)) = []"
  by (auto simp: fallbackEntry_def Let_def split: sum.splits)

lemma tryBuild_builds:
  "set (builds (fst (tryBuild env name mk cf fmts w))) \<subseteq> mk ` set fmts"
proof -
  obtain ev r w' where bf: "buildFormats env mk cf fmts w = (ev, r, w')"
    by (cases "buildFormats env mk cf fmts w") auto
  have "set (builds ev) \<subseteq> set (map mk fmts)"
    using buildFormats_prefix[OF bf] by (rule set_mono_prefix)
  then show ?thesis
    using bf by (cases r) (auto simp: tryBuild_def builds_append log_def)
qed

lemma buildPackage_resolved:
  assumes "findEntry env w pkgDir (tryEntryCandidates pkgJson config) = (ev1, entry1)"
      and "fallbackEntry env w pkgDir entry1 = (ev2, Inr entry2)"
      and "truthy entry2"
      and "name = pkgName env pkgDir pkgJson"
      and "fmts = (case opt_formats opts of Some f \<Rightarrow> f | None \<Rightarrow> formats config)"
      and "od = outDirOf env (outRootOf env opts config w) (shortName name)"
      and "vc = join env [pkgDir, ''vite.config.ts'']"
      and "cf = (if existsSync env w vc then Some vc else None)"
      and "mk = (\<lambda>format. optsForVite config pkgDir cf
                  (buildOptions config (the entry2) (shortName name)
                     (collectExternals config pkgJson) od format))"
      and "tryBuild env name mk cf fmts w = (ev3, r, w')"
  shows "buildPackage env pkgDir pkgJson opts config w =
           (ev1 @ ev2 @ [log [''Building'', name, ''entry='', the entry2, ''formats='',
                              array_join '','' fmts, ''outDir='', od],
                         ExistsSync vc] @ ev3, r, w')"
  unfolding buildPackage_def Let_def
  using assms(10) unfolding assms(9) assms(8) assms(7) assms(6) assms(5) assms(4)
  by (simp only: assms(1) assms(2) assms(3) prod.case sum.case if_False not_True_eq_False)

lemma buildPackage_builds:
  assumes "x \<in> set (builds (fst (buildPackage env pkgDir pkgJson opts config w)))"
  shows "\<exists>entry cf fmt.
           fmt \<in> set (case opt_formats opts of Some f \<Rightarrow> f | None \<Rightarrow> formats config)
         \<and> x = optsForVite config pkgDir cf
                 (buildOptions config entry (shortName (pkgName env pkgDir pkgJson))
                    (collectExternals config pkgJson)
                    (outDirOf env (outRootOf env opts config w)
                       (shortName (pkgName env pkgDir pkgJson)))
                    fmt)"
proof -
  obtain ev1 entry1 where fe: "findEntry env w pkgDir (tryEntryCandidates pkgJson config) = (ev1, entry1)"
    by (cases "findEntry env w pkgDir (tryEntryCandidates pkgJson config)") auto
  obtain ev2 r2 where fb: "fallbackEntry env w pkgDir entry1 = (ev2, r2)"
    by (cases "fallbackEntry env w pkgDir entry1") auto
  have b1: "builds ev1 = []" using builds_findEntry[of env w pkgDir "tryEntryCandidates pkgJson config"] fe by simp
  have b2: "builds ev2 = []" using builds_fallbackEntry[of env w pkgDir entry1] fb by simp
  show ?thesis
  proof (cases r2)
    case (Inl err)
    then show ?thesis using assms fe fb b1 b2
      by (simp add: buildPackage_def Let_def builds_append)
  next
    case (Inr entry2)
    show ?thesis
    proof (cases "truthy entry2")
      case False
      then show ?thesis using assms fe fb b1 b2 Inr
        by (simp add: buildPackage_def Let_def builds_append)
    next
      case True
      define name where "name = pkgName env pkgDir pkgJson"
      define fmts where "fmts = (case opt_formats opts of Some f \<Rightarrow> f | None \<Rightarrow> formats config)"
      define od where "od = outDirOf env (outRootOf env opts config w) (shortName name)"
      define vc where "vc = join env [pkgDir, ''vite.config.ts'']"
      define cf where "cf = (if existsSync env w vc then Some vc else None)"
      define mk where "mk = (\<lambda>format. optsForVite config pkgDir cf
                  (buildOptions config (the entry2) (shortName name)
                     (collectExternals config pkgJson) od format))"
      obtain ev3 r w' where tb: "tryBuild env name mk cf fmts w = (ev3, r, w')"
        by (cases "tryBuild env name mk cf fmts w") auto
      have fb': "fallbackEntry env w pkgDir entry1 = (ev2, Inr entry2)" using fb Inr by simp
      note eq = buildPackage_resolved[OF fe fb' True name_def fmts_def od_def vc_def cf_def mk_def tb]
      have "x \<in> set (builds ev3)"
        using assms b1 b2 unfolding eq by (simp add: builds_append builds_log)
      then have "x \<in> mk ` set fmts"
        using tryBuild_builds[of env name mk cf fmts w] tb by auto
      then obtain fmt where "fmt \<in> set fmts" "x = mk fmt" by blast
      then show ?thesis unfolding mk_def fmts_def od_def name_def by blast
    qed
  qed
qed


lemmas host_defs =
  demo_env_def posix_isAbsolute_def posix_join_def posix_resolve_def posix_basename_def
  disk_exists_def disk_children_def disk_readdir_def disk_dirents_def demo_readManifest_def
  demo_manifests_def demo_build_def demo_disk_def no_opts_def foo_manifest_def
  bar_manifest_def docs_manifest_def icons_manifest_def

lemmas package_defs =
  buildPackage_def pkgName_def shortName_def outRootOf_def outDirOf_def
  tryEntryCandidates_def candidatePath_def fallbackEntry_def isIndexFile_def
  entryNotFound_def collectExternals_def set_add_def object_keys_def externalTest_def
  userBuild_def userRollup_def userOutput_def buildOptions_def optsForVite_def tryBuild_def
  defaultConfig_def default_external_def startsWith_def log_def Let_def

subsection \<open>The external set\<close>

text \<open>
  C1. The external set that \<^verbatim>\<open>buildPackage\<close> computes is the set of all peer
  dependency names together with the regular dependency names on which the configured
  predicate returns true (none when no predicate is configured); so every peer
  dependency name is in it whatever the predicate says. Every invocation of the bundler
  made by \<^verbatim>\<open>buildPackage\<close> receives this set as \<^verbatim>\<open>rollupOptions.external\<close>.
\<close>

theorem external_set_spec:
  "set (collectExternals config pkgJson)
     = set (object_keys (pj_peerDependencies pkgJson))
       \<union> {d \<in> set (object_keys (pj_dependencies pkgJson)). externalTest config d}
   \<and> (\<forall>x \<in> set (builds (fst (buildPackage env pkgDir pkgJson opts config w))).
         map_option rollup_external (rollupOptions (vo_build x))
           = Some (Some (collectExternals config pkgJson)))"
proof (intro conjI ballI)
  show "set (collectExternals config pkgJson)
     = set (object_keys (pj_peerDependencies pkgJson))
       \<union> {d \<in> set (object_keys (pj_dependencies pkgJson)). externalTest config d}"
    by (rule set_collectExternals)
next
  fix x assume "x \<in> set (builds (fst (buildPackage env pkgDir pkgJson opts config w)))"
  from buildPackage_builds[OF this]
  show "map_option rollup_external (rollupOptions (vo_build x))
           = Some (Some (collectExternals config pkgJson))"
    by (auto simp: optsForVite_def buildOptions_def)
qed

theorem external_set_spec_witness:
  "set (collectExternals defaultConfig foo_manifest) = {''vue'', ''lodash''}
   \<and> map (\<lambda>x. map_option rollup_external (rollupOptions (vo_build x)))
        (builds (fst (buildPackage demo_env ''/repo/packages/foo'' foo_manifest no_opts
                        defaultConfig demo_disk)))
       = [Some (Some [''vue'', ''lodash'']), Some (Some [''vue'', ''lodash''])]"
  using external_set_spec[of defaultConfig foo_manifest demo_env "''/repo/packages/foo''"
          no_opts demo_disk]
  by (simp add: host_defs package_defs)

text \<open>
  C2, as amended. No step removes the package's own name: the external set contains it
  exactly when it is a peer dependency name, or a regular dependency name on which the
  predicate returns true.
\<close>

theorem own_name_external_iff:
  "pkgName env pkgDir pkgJson \<in> set (collectExternals config pkgJson)
     \<longleftrightarrow> pkgName env pkgDir pkgJson \<in> set (object_keys (pj_peerDependencies pkgJson))
         \<or> (pkgName env pkgDir pkgJson \<in> set (object_keys (pj_dependencies pkgJson))
            \<and> externalTest config (pkgName env pkgDir pkgJson))"
  by (simp add: set_collectExternals)

text \<open>
  C2 as stated fails: a manifest named \<^verbatim>\<open>@lx/icons\<close> that lists \<^verbatim>\<open>@lx/icons\<close> among
  its peer dependencies gets its own name into the external set.
\<close>

theorem own_name_external_counterexample:
  "pkgName demo_env ''/repo/packages/icons'' icons_manifest = ''@lx/icons''
   \<and> ''@lx/icons'' \<in> set (collectExternals defaultConfig icons_manifest)"
  by (simp add: host_defs package_defs)

subsection \<open>Names of the artifacts\<close>

text \<open>
  C9. The short name is the part of the package name after its last \<^verbatim>\<open>/\<close> (the whole
  name when there is none), so it holds no \<^verbatim>\<open>/\<close>. Every invocation of the bundler
  made by \<^verbatim>\<open>buildPackage\<close> gets as output directory the output root joined with the
  short name without its \<^verbatim>\<open>@\<close> marker (the first \<^verbatim>\<open>@\<close> is removed; no \<^verbatim>\<open>/\<close> is
  left to replace), the short name as library name, one of the requested formats, and a
  file name function that maps a format \<open>f\<close> to \<^verbatim>\<open><shortName>.<f>.js\<close>.
\<close>

theorem artifact_naming:
  "CHR ''/'' \<notin> set (shortName n)
   \<and> (\<exists>pre. n = pre @ shortName n \<and> (pre = [] \<or> last pre = CHR ''/''))
   \<and> (\<forall>x \<in> set (builds (fst (buildPackage env pkgDir pkgJson opts config w))).
         outDir (vo_build x)
           = Some (join env [outRootOf env opts config w,
                             remove1 CHR ''@'' (shortName (pkgName env pkgDir pkgJson))])
       \<and> (\<exists>l fmt. lib (vo_build x) = Some l
              \<and> lib_name l = shortName (pkgName env pkgDir pkgJson)
              \<and> lib_formats l = [fmt]
              \<and> fmt \<in> set (case opt_formats opts of Some f \<Rightarrow> f | None \<Rightarrow> formats config)
              \<and> lib_fileName l
                  = (\<lambda>f. shortName (pkgName env pkgDir pkgJson) @ ''.'' @ f @ ''.js'')))"
proof (intro conjI ballI)
  show "CHR ''/'' \<notin> set (shortName n)" using shortName_suffix[of n] by blast
  show "\<exists>pre. n = pre @ shortName n \<and> (pre = [] \<or> last pre = CHR ''/'')"
    using shortName_suffix[of n] by blast
next
  fix x assume x: "x \<in> set (builds (fst (buildPackage env pkgDir pkgJson opts config w)))"
  let ?short = "shortName (pkgName env pkgDir pkgJson)"
  have "CHR ''/'' \<notin> set ?short" using shortName_suffix by blast
  then have "CHR ''/'' \<notin> set (remove1 CHR ''@'' ?short)"
    by (metis notin_set_remove1)
  then have od: "outDirOf env r ?short = join env [r, remove1 CHR ''@'' ?short]" for r
    by (simp add: outDirOf_def replace_remove1 replace_notin)
  from buildPackage_builds[OF x] obtain entry cf fmt where
    fmt: "fmt \<in> set (case opt_formats opts of Some f \<Rightarrow> f | None \<Rightarrow> formats config)"
    and xeq: "x = optsForVite config pkgDir cf
                 (buildOptions config entry ?short (collectExternals config pkgJson)
                    (outDirOf env (outRootOf env opts config w) ?short) fmt)"
    by blast
  show "outDir (vo_build x) = Some (join env [outRootOf env opts config w, remove1 CHR ''@'' ?short])"
    unfolding xeq by (simp add: optsForVite_def buildOptions_def od)
  show "\<exists>l fmt. lib (vo_build x) = Some l
              \<and> lib_name l = ?short
              \<and> lib_formats l = [fmt]
              \<and> fmt \<in> set (case opt_formats opts of Some f \<Rightarrow> f | None \<Rightarrow> formats config)
              \<and> lib_fileName l = (\<lambda>f. ?short @ ''.'' @ f @ ''.js'')"
    unfolding xeq using fmt by (simp add: optsForVite_def buildOptions_def)
qed

theorem artifact_naming_witness:
  "shortName ''@lx/foo'' = ''foo''
   \<and> map (\<lambda>x. (outDir (vo_build x),
               map_option (\<lambda>l. (lib_name l, lib_formats l, map (lib_fileName l) (lib_formats l)))
                 (lib (vo_build x))))
        (builds (fst (buildPackage demo_env ''/repo/packages/foo'' foo_manifest no_opts
                        defaultConfig demo_disk)))
       = [(Some ''/repo/dist/foo'', Some (''foo'', [''es''], [''foo.es.js''])),
          (Some ''/repo/dist/foo'', Some (''foo'', [''cjs''], [''foo.cjs.js'']))]"
  using artifact_naming[of "''@lx/foo''" demo_env "''/repo/packages/foo''" foo_manifest
          no_opts defaultConfig demo_disk]
  by (simp add: host_defs package_defs)

subsection \<open>Entry resolution\<close>

text \<open>
  C3. The candidate loop of \<^verbatim>\<open>buildPackage\<close> returns the first existing path among the
  candidates in the order of the specification (module field, main field, the names of
  \<^verbatim>\<open>entryFiles\<close> in list order, each joined to the package directory unless absolute;
  a field that is absent or empty is skipped), and it probes the disk for exactly the
  candidates up to and including the one it returns. In particular, when the module field
  names an existing path, that path is returned after a single probe: no later candidate
  is consulted.
\<close>

theorem entry_search_order:
  "snd (findEntry env w pkgDir (tryEntryCandidates pkgJson config))
     = find (existsSync env w) (spec_candidates env pkgDir pkgJson config)
   \<and> fst (findEntry env w pkgDir (tryEntryCandidates pkgJson config))
     = map ExistsSync
         (takeWhile (\<lambda>p. \<not> existsSync env w p) (spec_candidates env pkgDir pkgJson config)
          @ (case find (existsSync env w) (spec_candidates env pkgDir pkgJson config) of
               None \<Rightarrow> [] | Some p \<Rightarrow> [p]))
   \<and> (truthy (pj_module pkgJson)
        \<and> existsSync env w (if isAbsolute env (the (pj_module pkgJson))
                            then the (pj_module pkgJson)
                            else join env [pkgDir, the (pj_module pkgJson)])
      \<longrightarrow> findEntry env w pkgDir (tryEntryCandidates pkgJson config)
            = ([ExistsSync (if isAbsolute env (the (pj_module pkgJson))
                            then the (pj_module pkgJson)
                            else join env [pkgDir, the (pj_module pkgJson)])],
               Some (if isAbsolute env (the (pj_module pkgJson))
                     then the (pj_module pkgJson)
                     else join env [pkgDir, the (pj_module pkgJson)])))"
proof (intro conjI impI)
  show "snd (findEntry env w pkgDir (tryEntryCandidates pkgJson config))
     = find (existsSync env w) (spec_candidates env pkgDir pkgJson config)"
    by (simp only: findEntry_find spec_candidates_usable)
  show "fst (findEntry env w pkgDir (tryEntryCandidates pkgJson config))
     = map ExistsSync
         (takeWhile (\<lambda>p. \<not> existsSync env w p) (spec_candidates env pkgDir pkgJson config)
          @ (case find (existsSync env w) (spec_candidates env pkgDir pkgJson config) of
               None \<Rightarrow> [] | Some p \<Rightarrow> [p]))"
    by (simp only: findEntry_probes spec_candidates_usable)
next
  let ?p = "if isAbsolute env (the (pj_module pkgJson)) then the (pj_module pkgJson)
            else join env [pkgDir, the (pj_module pkgJson)]"
  assume a: "truthy (pj_module pkgJson) \<and> existsSync env w ?p"
  then show "findEntry env w pkgDir (tryEntryCandidates pkgJson config)
               = ([ExistsSync ?p], Some ?p)"
    by (simp add: tryEntryCandidates_def candidatePath_def Let_def)
qed

theorem entry_search_order_witness:
  "truthy (pj_module bar_manifest)
   \<and> existsSync demo_env demo_disk ''/repo/packages/bar/lib/bar.mjs''
   \<and> findEntry demo_env demo_disk ''/repo/packages/bar''
        (tryEntryCandidates bar_manifest defaultConfig)
       = ([ExistsSync ''/repo/packages/bar/lib/bar.mjs''],
          Some ''/repo/packages/bar/lib/bar.mjs'')"
  using entry_search_order[of demo_env demo_disk "''/repo/packages/bar''" bar_manifest
          defaultConfig]
  by (simp add: host_defs)

text \<open>
  C5. When none of the candidate paths (module, main and the configured entry files)
  exists and the listing of the package directory holds none of \<^verbatim>\<open>index.ts\<close>,
  \<^verbatim>\<open>index.js\<close>, \<^verbatim>\<open>index.mjs\<close>, \<^verbatim>\<open>index.cjs\<close>, \<^verbatim>\<open>index.tsx\<close>, \<^verbatim>\<open>buildPackage\<close>
  throws the entry-not-found error, whose message names the package, the directory and the
  configured candidate file names; the bundler is never invoked and the world is unchanged.
\<close>

theorem entry_not_found:
  "(\<forall>p \<in> set (spec_candidates env pkgDir pkgJson config). \<not> existsSync env w p)
     \<and> readdirSync env w pkgDir = Inr files
     \<and> (\<forall>f \<in> set files.
           f \<notin> {''index.ts'', ''index.js'', ''index.mjs'', ''index.cjs'', ''index.tsx''})
   \<longrightarrow> buildPackage env pkgDir pkgJson opts config w
        = (map ExistsSync (spec_candidates env pkgDir pkgJson config) @ [ReaddirSync pkgDir],
           Inl (Error (''Cannot find entry for package '' @ pkgName env pkgDir pkgJson
                       @ '' in '' @ pkgDir
                       @ ''. Please set \"main\" or \"module\" in package.json or add one of: ''
                       @ array_join '', '' (entryFiles config))),
           w)"
proof (intro impI)
  assume a: "(\<forall>p \<in> set (spec_candidates env pkgDir pkgJson config). \<not> existsSync env w p)
     \<and> readdirSync env w pkgDir = Inr files
     \<and> (\<forall>f \<in> set files.
           f \<notin> {''index.ts'', ''index.js'', ''index.mjs'', ''index.cjs'', ''index.tsx''})"
  then have "\<forall>p \<in> set (spec_candidates env pkgDir pkgJson config). \<not> existsSync env w p"
    by blast
  then have "\<forall>p \<in> set (map (candidatePath env pkgDir)
                          (usable (tryEntryCandidates pkgJson config))). \<not> existsSync env w p"
    by (simp only: spec_candidates_usable)
  from findEntry_none[OF this]
  have fe: "findEntry env w pkgDir (tryEntryCandidates pkgJson config)
              = (map ExistsSync (spec_candidates env pkgDir pkgJson config), None)"
    by (simp only: spec_candidates_usable)
  have "\<forall>f \<in> set files. \<not> isIndexFile f" using a by (simp add: isIndexFile_def)
  then have "find isIndexFile files = None" by (simp add: find_None_iff')
  then have fb: "fallbackEntry env w pkgDir None = ([ReaddirSync pkgDir], Inr None)"
    using a by (simp add: fallbackEntry_def)
  show "buildPackage env pkgDir pkgJson opts config w
        = (map ExistsSync (spec_candidates env pkgDir pkgJson config) @ [ReaddirSync pkgDir],
           Inl (Error (''Cannot find entry for package '' @ pkgName env pkgDir pkgJson
                       @ '' in '' @ pkgDir
                       @ ''. Please set \"main\" or \"module\" in package.json or add one of: ''
                       @ array_join '', '' (entryFiles config))),
           w)"
    unfolding buildPackage_def Let_def fe prod.case fb sum.case
    by (simp add: entryNotFound_def)
qed

theorem entry_not_found_witness:
  "spec_candidates demo_env ''/repo/packages/docs'' docs_manifest defaultConfig
     = [''/repo/packages/docs/lib/docs.js'', ''/repo/packages/docs/index.ts'',
        ''/repo/packages/docs/src/index.ts'', ''/repo/packages/docs/src/index.tsx'']
   \<and> list_all (\<lambda>p. \<not> existsSync demo_env demo_disk p)
        (spec_candidates demo_env ''/repo/packages/docs'' docs_manifest defaultConfig)
   \<and> readdirSync demo_env demo_disk ''/repo/packages/docs'' = Inr [''package.json'', ''README.md'']
   \<and> fst (snd (buildPackage demo_env ''/repo/packages/docs'' docs_manifest no_opts defaultConfig
                 demo_disk))
       = Inl (Error (''Cannot find entry for package @lx/docs in /repo/packages/docs''
               @ ''. Please set \"main\" or \"module\" in package.json or add one of: ''
               @ ''index.ts, src/index.ts, src/index.tsx''))"
  using entry_not_found[of demo_env "''/repo/packages/docs''" docs_manifest defaultConfig
          demo_disk "[''package.json'', ''README.md'']" no_opts]
  by (simp add: host_defs spec_candidates_def usable_def defaultConfig_def pkgName_def)

subsection \<open>Loading the configuration\<close>

text \<open>
  C7. Without a path \<^verbatim>\<open>loadConfig\<close> returns the built-in default configuration itself.
  With a path whose resolved file does not exist it throws the error
  \<^verbatim>\<open>Config file not found: <path>\<close> before importing anything. When the file exists
  and importing it throws, it writes \<^verbatim>\<open>Failed to load config:\<close> with the error to the
  console and returns the built-in default.
\<close>

theorem loadConfig_spec:
  "loadConfig env None w = ([], Inr defaultConfig, w)
   \<and> (cp \<noteq> [] \<and> \<not> existsSync env w (absPathOf env w cp)
      \<longrightarrow> loadConfig env (Some cp) w
            = ([ExistsSync (absPathOf env w cp)],
               Inl (Error (''Config file not found: '' @ absPathOf env w cp)), w))
   \<and> (cp \<noteq> [] \<and> existsSync env w (absPathOf env w cp)
        \<and> importConfig env (absPathOf env w cp) w = (Inl err, w')
      \<longrightarrow> loadConfig env (Some cp) w
            = ([ExistsSync (absPathOf env w cp), Import (absPathOf env w cp),
                ConsoleError [Str ''Failed to load config:'', Thrown err]],
               Inr defaultConfig, w'))"
  by (simp add: loadConfig_def Let_def)

theorem loadConfig_spec_witness:
  "\<not> existsSync demo_env demo_disk (absPathOf demo_env demo_disk ''missing.config.ts'')
   \<and> loadConfig demo_env (Some ''missing.config.ts'') demo_disk
       = ([ExistsSync ''/repo/missing.config.ts''],
          Inl (Error ''Config file not found: /repo/missing.config.ts''), demo_disk)
   \<and> existsSync demo_env demo_disk (absPathOf demo_env demo_disk ''/repo/broken.config.ts'')
   \<and> loadConfig demo_env (Some ''/repo/broken.config.ts'') demo_disk
       = ([ExistsSync ''/repo/broken.config.ts'', Import ''/repo/broken.config.ts'',
           ConsoleError [Str ''Failed to load config:'',
                         Thrown (Error ''SyntaxError: Unexpected token'')]],
          Inr defaultConfig, demo_disk)"
  using loadConfig_spec[of demo_env demo_disk "''missing.config.ts''"]
        loadConfig_spec[of demo_env demo_disk "''/repo/broken.config.ts''"
          "Error ''SyntaxError: Unexpected token''" demo_disk]
  by (simp add: host_defs absPathOf_def)

subsection \<open>The entry of a single component\<close>

lemmas component_defs =
  componentEntry_def vueStep_def altStep_def endsWith_def buildSingleComponent_def
  tmpPkgJson_def

text \<open>
  C4 on a component directory that holds only \<^verbatim>\<open>src/Button.vue\<close>: the second step
  lists the component directory itself, not its \<^verbatim>\<open>src\<close> subdirectory, so the file is
  not found and the build fails although a \<^verbatim>\<open>.vue\<close> file lies under \<^verbatim>\<open>src\<close>.
\<close>

theorem component_vue_under_src_not_found:
  "existsSync demo_env demo_disk ''/repo/packages/components/button/src/Button.vue''
   \<and> readdirSync demo_env demo_disk ''/repo/packages/components/button'' = Inr [''src'']
   \<and> componentEntry demo_env demo_disk ''/repo/packages/components/button'' ''button''
       = ([ExistsSync ''/repo/packages/components/button/index.ts'',
           ReaddirSync ''/repo/packages/components/button'',
           ExistsSync ''/repo/packages/components/button/index.ts'',
           ExistsSync ''/repo/packages/components/button/src/index.ts'',
           ExistsSync ''/repo/packages/components/button/index.ts''],
          Inl (Error ''Cannot find entry for component button in /repo/packages/components/button''))"
  by (simp add: host_defs component_defs Let_def)

subsection \<open>Failing builds\<close>

lemma buildFormats_fail_last:
  "buildFormats env mk cf fmts w = (ev, Inl err, w')
   \<Longrightarrow> builds ev \<noteq> [] \<and> (\<exists>w0. build env (last (builds ev)) w0 = (Inl err, w'))"
proof (induction fmts arbitrary: w ev)
  case Nil
  then show ?case by simp
next
  case (Cons f fs)
  show ?case
  proof (cases "build env (mk f) w")
    case (Pair res w1)
    show ?thesis
    proof (cases res)
      case (Inl e)
      then show ?thesis using Cons.prems Pair by (auto simp: Let_def builds_log)
    next
      case (Inr u)
      obtain ev2 r2 w2 where rest: "buildFormats env mk cf fs w1 = (ev2, r2, w2)"
        by (cases "buildFormats env mk cf fs w1") auto
      then have eqs: "r2 = Inl err" "w2 = w'"
        "ev = log [''vite.build -> format='' @ f @ '' (configFile=''
                      @ (if truthy cf then ''yes'' else ''no'') @ '')''] # Build (mk f) # ev2"
        using Cons.prems Pair Inr by (auto simp: Let_def)
      from Cons.IH[of w1 ev2] rest eqs
      have "builds ev2 \<noteq> [] \<and> (\<exists>w0. build env (last (builds ev2)) w0 = (Inl err, w'))"
        by simp
      then show ?thesis unfolding eqs(3) by (simp add: builds_log)
    qed
  qed
qed

lemma buildFormats_abort:
  assumes "buildFormats env mk cf pre w = (ev, Inr (), w1)"
      and "build env (mk f) w1 = (Inl err, w2)"
  shows "buildFormats env mk cf (pre @ f # post) w
           = (ev @ [log [''vite.build -> format='' @ f @ '' (configFile=''
                          @ (if truthy cf then ''yes'' else ''no'') @ '')''],
                    Build (mk f)], Inl err, w2)"
  using assms by (simp add: buildFormats_append Let_def)

lemma buildAll_abort:
  assumes "buildAll env pre opts config w = (ev, Inr (), w1)"
      and "readManifest env w1 (join env [dir, ''package.json'']) = Inr pj"
      and "buildPackage env dir pj opts config w1 = (evp, Inl err, w2)"
  shows "buildAll env (pre @ dir # post) opts config w
           = (ev @ ReadManifest (join env [dir, ''package.json'']) # evp, Inl err, w2)"
  using assms by (simp add: buildAll_append Let_def)

lemma tryBuild_fail_last:
  assumes "tryBuild env name mk cf fmts w = (ev, Inl err, w')"
  shows "builds ev \<noteq> [] \<and> last ev = log [''Build failed for'', name]
         \<and> (\<exists>w0. build env (last (builds ev)) w0 = (Inl err, w'))"
proof -
  obtain ev0 r0 w0 where bf: "buildFormats env mk cf fmts w = (ev0, r0, w0)"
    by (cases "buildFormats env mk cf fmts w") auto
  show ?thesis
  proof (cases r0)
    case (Inl e)
    then have eqs: "ev = ev0 @ [log [''Build failed for'', name]]" "e = err" "w0 = w'"
      using assms bf by (auto simp: tryBuild_def)
    from buildFormats_fail_last[of env mk cf fmts w ev0 err w'] bf Inl eqs
    have "builds ev0 \<noteq> [] \<and> (\<exists>w0. build env (last (builds ev0)) w0 = (Inl err, w'))" by simp
    then show ?thesis unfolding eqs(1) by (simp add: builds_append builds_log)
  next
    case (Inr u)
    then show ?thesis using assms bf by (auto simp: tryBuild_def)
  qed
qed

lemma tryBuild_prefix:
  "prefix (builds (fst (tryBuild env name mk cf fmts w))) (map mk fmts)"
proof -
  obtain ev r w' where bf: "buildFormats env mk cf fmts w = (ev, r, w')"
    by (cases "buildFormats env mk cf fmts w") auto
  from buildFormats_prefix[OF bf] show ?thesis
    using bf by (cases r) (auto simp: tryBuild_def builds_append builds_log)
qed

lemma buildPackage_fail_last:
  assumes "builds (fst (buildPackage env pkgDir pkgJson opts config w)) \<noteq> []"
      and "snd (buildPackage env pkgDir pkgJson opts config w) = (Inl err, w')"
  shows "last (fst (buildPackage env pkgDir pkgJson opts config w))
           = log [''Build failed for'', pkgName env pkgDir pkgJson]
         \<and> (\<exists>w0. build env (last (builds (fst (buildPackage env pkgDir pkgJson opts config w)))) w0
                   = (Inl err, w'))"
proof -
  obtain ev1 entry1 where fe: "findEntry env w pkgDir (tryEntryCandidates pkgJson config) = (ev1, entry1)"
    by (cases "findEntry env w pkgDir (tryEntryCandidates pkgJson config)") auto
  obtain ev2 r2 where fb: "fallbackEntry env w pkgDir entry1 = (ev2, r2)"
    by (cases "fallbackEntry env w pkgDir entry1") auto
  have b1: "builds ev1 = []" using builds_findEntry[of env w pkgDir "tryEntryCandidates pkgJson config"] fe by simp
  have b2: "builds ev2 = []" using builds_fallbackEntry[of env w pkgDir entry1] fb by simp
  show ?thesis
  proof (cases r2)
    case (Inl e)
    then show ?thesis using assms(1) fe fb b1 b2
      by (simp add: buildPackage_def Let_def builds_append)
  next
    case (Inr entry2)
    show ?thesis
    proof (cases "truthy entry2")
      case False
      then show ?thesis using assms(1) fe fb b1 b2 Inr
        by (simp add: buildPackage_def Let_def builds_append)
    next
      case True
      define name where "name = pkgName env pkgDir pkgJson"
      define fmts where "fmts = (case opt_formats opts of Some f \<Rightarrow> f | None \<Rightarrow> formats config)"
      define od where "od = outDirOf env (outRootOf env opts config w) (shortName name)"
      define vc where "vc = join env [pkgDir, ''vite.config.ts'']"
      define cf where "cf = (if existsSync env w vc then Some vc else None)"
      define mk where "mk = (\<lambda>format. optsForVite config pkgDir cf
                  (buildOptions config (the entry2) (shortName name)
                     (collectExternals config pkgJson) od format))"
      obtain ev3 r w3 where tb: "tryBuild env name mk cf fmts w = (ev3, r, w3)"
        by (cases "tryBuild env name mk cf fmts w") auto
      have fb': "fallbackEntry env w pkgDir entry1 = (ev2, Inr entry2)" using fb Inr by simp
      note eq = buildPackage_resolved[OF fe fb' True name_def fmts_def od_def vc_def cf_def mk_def tb]
      have r: "r = Inl err" "w3 = w'" using assms(2) unfolding eq by simp_all
      from tryBuild_fail_last[of env name mk cf fmts w ev3 err w'] tb r
      have t: "builds ev3 \<noteq> []" "last ev3 = log [''Build failed for'', name]"
        "\<exists>w0. build env (last (builds ev3)) w0 = (Inl err, w')" by simp_all
      then have ne: "ev3 \<noteq> []" by auto
      have "builds (fst (buildPackage env pkgDir pkgJson opts config w)) = builds ev3"
        unfolding eq using b1 b2 by (simp add: builds_append builds_log)
      moreover have "last (fst (buildPackage env pkgDir pkgJson opts config w)) = last ev3"
        unfolding eq using ne by simp
      ultimately show ?thesis using t unfolding name_def by simp
    qed
  qed
qed


lemmas main_defs =
  main_def script_def pkgDirsOf_def candidateDirs_def loadConfig_def absPathOf_def buildOne_def

text \<open>
  C8, as amended. The formats of a package are built in list order; when the build of a
  format fails after the formats before it succeeded, no later format is built, the line
  \<^verbatim>\<open>Build failed for <package name>\<close> is logged, and the bundler's error is thrown
  again unchanged: whenever \<^verbatim>\<open>buildPackage\<close> fails after invoking the bundler, its
  error is the error of its last invocation and its last event is that log line. In a
  run over all packages, the first failing package ends the loop, so no later package is
  read or built, and the script prints the error and exits with status 1.
\<close>

theorem fail_fast:
  "(buildFormats env mk cf pre w = (ev, Inr (), wp) \<and> build env (mk f) wp = (Inl err, wq)
      \<longrightarrow> tryBuild env name mk cf (pre @ f # post) w
            = (ev @ [log [''vite.build -> format='' @ f @ '' (configFile=''
                           @ (if truthy cf then ''yes'' else ''no'') @ '')''],
                     Build (mk f), log [''Build failed for'', name]],
               Inl err, wq)
          \<and> builds ev = map mk pre)
   \<and> (builds (fst (buildPackage env pkgDir pkgJson opts config w)) \<noteq> []
        \<and> snd (buildPackage env pkgDir pkgJson opts config w) = (Inl err, wq)
      \<longrightarrow> last (fst (buildPackage env pkgDir pkgJson opts config w))
            = log [''Build failed for'', pkgName env pkgDir pkgJson]
          \<and> (\<exists>w0. build env
                     (last (builds (fst (buildPackage env pkgDir pkgJson opts config w)))) w0
                   = (Inl err, wq)))
   \<and> (buildAll env dirs opts config w = (eva, Inr (), wa)
        \<and> readManifest env wa (join env [dir, ''package.json'']) = Inr pj
        \<and> buildPackage env dir pj opts config wa = (evp, Inl err, wb)
      \<longrightarrow> buildAll env (dirs @ dir # rest) opts config w
            = (eva @ ReadManifest (join env [dir, ''package.json'']) # evp, Inl err, wb))
   \<and> (loadConfig env (opt_config opts) w = (evc, Inr config, wc)
        \<and> existsSync env wc (join env [resolve env [cwd env wc], ''packages''])
        \<and> \<not> truthy (component opts) \<and> \<not> truthy (pkg opts)
        \<and> readdirDirents env wc (join env [resolve env [cwd env wc], ''packages'']) = Inr entries
        \<and> buildAll env
             (snd (pkgDirsOf env wc (join env [resolve env [cwd env wc], ''packages'']) entries))
             opts config wc = (evb, Inl err, wd)
      \<longrightarrow> script env opts w
            = (evc @ [ExistsSync (join env [resolve env [cwd env wc], ''packages'']),
                      ReaddirSync (join env [resolve env [cwd env wc], ''packages''])]
                 @ fst (pkgDirsOf env wc (join env [resolve env [cwd env wc], ''packages''])
                          entries)
                 @ evb @ [ConsoleError [Thrown err]],
               1, wd))"
proof (intro conjI impI)
  assume a: "buildFormats env mk cf pre w = (ev, Inr (), wp) \<and> build env (mk f) wp = (Inl err, wq)"
  then show "tryBuild env name mk cf (pre @ f # post) w
            = (ev @ [log [''vite.build -> format='' @ f @ '' (configFile=''
                           @ (if truthy cf then ''yes'' else ''no'') @ '')''],
                     Build (mk f), log [''Build failed for'', name]],
               Inl err, wq)"
    by (simp add: tryBuild_def buildFormats_abort)
  from a have "buildFormats env mk cf pre w = (ev, Inr (), wp)" by simp
  then show "builds ev = map mk pre"
    by (rule buildFormats_all)
next
  assume a: "builds (fst (buildPackage env pkgDir pkgJson opts config w)) \<noteq> []
        \<and> snd (buildPackage env pkgDir pkgJson opts config w) = (Inl err, wq)"
  then have b: "builds (fst (buildPackage env pkgDir pkgJson opts config w)) \<noteq> []"
    and c: "snd (buildPackage env pkgDir pkgJson opts config w) = (Inl err, wq)"
    by simp_all
  note fl = buildPackage_fail_last[OF b c]
  from fl show "last (fst (buildPackage env pkgDir pkgJson opts config w))
            = log [''Build failed for'', pkgName env pkgDir pkgJson]"
    by (rule conjunct1)
  from fl show "\<exists>w0. build env
                     (last (builds (fst (buildPackage env pkgDir pkgJson opts config w)))) w0
                   = (Inl err, wq)"
    by (rule conjunct2)
next
  assume "buildAll env dirs opts config w = (eva, Inr (), wa)
        \<and> readManifest env wa (join env [dir, ''package.json'']) = Inr pj
        \<and> buildPackage env dir pj opts config wa = (evp, Inl err, wb)"
  then show "buildAll env (dirs @ dir # rest) opts config w
            = (eva @ ReadManifest (join env [dir, ''package.json'']) # evp, Inl err, wb)"
    by (simp add: buildAll_abort)
next
  let ?pd = "join env [resolve env [cwd env wc], ''packages'']"
  assume a: "loadConfig env (opt_config opts) w = (evc, Inr config, wc)
        \<and> existsSync env wc ?pd
        \<and> \<not> truthy (component opts) \<and> \<not> truthy (pkg opts)
        \<and> readdirDirents env wc ?pd = Inr entries
        \<and> buildAll env (snd (pkgDirsOf env wc ?pd entries)) opts config wc = (evb, Inl err, wd)"
  obtain evd dirs' where pd: "pkgDirsOf env wc ?pd entries = (evd, dirs')"
    by (cases "pkgDirsOf env wc ?pd entries") auto
  have "main env opts w = (evc @ [ExistsSync ?pd, ReaddirSync ?pd] @ evd @ evb, Threw err, wd)"
    using a pd by (simp add: main_def Let_def)
  then show "script env opts w
            = (evc @ [ExistsSync ?pd, ReaddirSync ?pd] @ fst (pkgDirsOf env wc ?pd entries)
                 @ evb @ [ConsoleError [Thrown err]], 1, wd)"
    using pd by (simp add: script_def)
qed

theorem fail_fast_witness:
  "map (\<lambda>x. lib_formats (the (lib (vo_build x))))
     (builds (fst (tryBuild demo_env ''@lx/foo''
        (\<lambda>fmt. optsForVite defaultConfig ''/repo/packages/foo'' None
                 (buildOptions defaultConfig ''/repo/packages/foo/index.ts'' ''foo''
                    [''vue'', ''lodash''] ''/repo/dist/foo'' fmt))
        None ([''es''] @ ''cjs'' # [''umd'']) demo_disk)))
     = [[''es''], [''cjs'']]
   \<and> last (fst (buildPackage demo_env ''/repo/packages/foo'' foo_manifest no_opts defaultConfig
                  demo_disk))
       = log [''Build failed for'', ''@lx/foo'']
   \<and> map root (builds (fst (buildAll demo_env
                  ([] @ ''/repo/packages/foo'' # [''/repo/packages/bar'', ''/repo/packages/docs''])
                  no_opts defaultConfig demo_disk)))
       = [''/repo/packages/foo'', ''/repo/packages/foo'']
   \<and> snd (script demo_env no_opts demo_disk) = (1, demo_disk)
   \<and> map root (builds (fst (script demo_env no_opts demo_disk)))
       = [''/repo/packages/foo'', ''/repo/packages/foo'']"
  using fail_fast[where env = demo_env and w = demo_disk and wp = demo_disk and wq = demo_disk
      and mk = "\<lambda>fmt. optsForVite defaultConfig ''/repo/packages/foo'' None
                 (buildOptions defaultConfig ''/repo/packages/foo/index.ts'' ''foo''
                    [''vue'', ''lodash''] ''/repo/dist/foo'' fmt)"
      and cf = None and pre = "[''es'']" and f = "''cjs''" and post = "[''umd'']"
      and name = "''@lx/foo''"
      and ev = "fst (buildFormats demo_env (\<lambda>fmt. optsForVite defaultConfig ''/repo/packages/foo'' None
                 (buildOptions defaultConfig ''/repo/packages/foo/index.ts'' ''foo''
                    [''vue'', ''lodash''] ''/repo/dist/foo'' fmt)) None [''es''] demo_disk)"
      and err = "Error ''Rollup failed to resolve import''"
      and pkgDir = "''/repo/packages/foo''" and pkgJson = foo_manifest and opts = no_opts
      and config = defaultConfig
      and dirs = "[]" and eva = "[]" and wa = demo_disk and dir = "''/repo/packages/foo''"
      and pj = foo_manifest and rest = "[''/repo/packages/bar'', ''/repo/packages/docs'']"
      and evp = "fst (buildPackage demo_env ''/repo/packages/foo'' foo_manifest no_opts
                        defaultConfig demo_disk)"
      and wb = demo_disk and evc = "[]" and wc = demo_disk and wd = demo_disk
      and entries = "[(''foo'', True), (''bar'', True), (''docs'', True), (''components'', True)]"
      and evb = "fst (buildAll demo_env
                  [''/repo/packages/foo'', ''/repo/packages/bar'', ''/repo/packages/docs'']
                  no_opts defaultConfig demo_disk)"]
  by (simp add: host_defs package_defs main_defs)

text \<open>
  C8 as stated fails where it says that the failure reaches the caller with the package
  name attached: the error that \<^verbatim>\<open>buildPackage\<close> throws is the bundler's own, and its
  message does not hold the package name.
\<close>

theorem propagated_error_counterexample:
  "pkgName demo_env ''/repo/packages/foo'' foo_manifest = ''@lx/foo''
   \<and> map (\<lambda>x. fst (build demo_env x demo_disk))
        (builds (fst (buildPackage demo_env ''/repo/packages/foo'' foo_manifest no_opts
                        defaultConfig demo_disk)))
       = [Inr (), Inl (Error ''Rollup failed to resolve import'')]
   \<and> fst (snd (buildPackage demo_env ''/repo/packages/foo'' foo_manifest no_opts defaultConfig
                 demo_disk))
       = Inl (Error ''Rollup failed to resolve import'')
   \<and> \<not> sublist ''@lx/foo'' (message (Error ''Rollup failed to resolve import''))"
  by (simp add: host_defs package_defs sublist_Cons_right)

subsection \<open>Cloning\<close>






















end
